theory Spec2Isabelle
  imports Complex_Main "HOL-Library.Product_Lexorder"
begin

section \<open>Numbers, dates and frames\<close>

text \<open>
  The Python sources compute with IEEE doubles. The embedding idealises a finite double as
  a \<^typ>\<open>real\<close> and every arithmetic operation as the exact one, so rounding, \<open>inf\<close> and
  \<open>NaN\<close> are outside the model. Two places where the idealisation and the code part ways
  are kept out of every statement below: a division by \<open>F_mature = 0\<close> (HOL's \<open>x / 0\<close> is
  \<open>0\<close>, NumPy's is \<open>inf\<close> or \<open>NaN\<close>) and the tangent at exactly \<open>\<plusminus>90\<close> degrees (HOL's
  \<open>tan (pi / 2)\<close> is \<open>0\<close>, NumPy's is about \<open>1.6e16\<close>).

  A calendar date is the pair of its year and its day of the year (what
  \<open>date.timetuple().tm_yday\<close> reads, 1 to 366); dates are ordered lexicographically.
  The daily frame of \<open>phen.py\<close> is the list of its rows, each a date and a temperature.
\<close>

type_synonym date = "int \<times> nat"

type_synonym daily_row = "date \<times> real"

definition tm_yday :: "date \<Rightarrow> nat" where
  "tm_yday d = snd d"

text \<open>\<open>df.sort_values('date').reset_index(drop=True)\<close>: the rows in ascending order of date,
  as a new frame. Rows of equal date keep their order here; the library leaves it open.\<close>

definition sort_values :: "daily_row list \<Rightarrow> daily_row list" where
  "sort_values df = sort_key fst df"

section \<open>phen.py\<close>

definition radians :: "real \<Rightarrow> real" where
  "radians x = x * pi / 180"

text \<open>\<open>np.clip(x, lo, hi)\<close> is \<open>minimum(maximum(x, lo), hi)\<close>.\<close>

definition clip :: "real \<Rightarrow> real \<Rightarrow> real \<Rightarrow> real" where
  "clip x lo hi = min (max x lo) hi"

definition calculate_photoperiod :: "date \<Rightarrow> real \<Rightarrow> real" where
  "calculate_photoperiod d latitude =
     (let lat_rad = radians latitude;
          day_of_year = tm_yday d;
          decl = radians 23.44 * sin (2 * pi * (real day_of_year - 81) / 365);
          cos_omega = - tan lat_rad * tan decl;
          cos_omega = clip cos_omega (- 1) 1;
          omega = arccos cos_omega;
          day_length = (24 / pi) * omega
      in day_length)"

definition chilling_unit :: "real \<Rightarrow> real" where
  "chilling_unit T = (if 0 \<le> T \<and> T \<le> 7 then 1 else 0)"

definition forcing_unit :: "real \<Rightarrow> real \<Rightarrow> real \<Rightarrow> real \<Rightarrow> real" where
  "forcing_unit T photoperiod T_base alpha =
     (if T > T_base then
        (let factor = 1 + alpha * (photoperiod - 12)
         in (T - T_base) * factor)
      else 0)"

text \<open>The local variables of \<open>predict_budburst\<close> that the loop reads and writes.\<close>

record pstate =
  chilling_sum :: real
  forcing_sum :: real
  budburst_date :: "date option"
  chilling_phase :: bool

text \<open>One pass through the body of the \<open>for\<close> loop, on one row. The second component
  tells whether the body ended in \<open>break\<close>.\<close>

definition loop_body ::
  "real \<Rightarrow> real \<Rightarrow> real \<Rightarrow> real \<Rightarrow> real \<Rightarrow> pstate \<Rightarrow> daily_row \<Rightarrow> pstate \<times> bool" where
  "loop_body latitude chilling_threshold forcing_threshold T_base alpha st row =
     (let current_date = fst row;
          T = snd row;
          photoperiod = calculate_photoperiod current_date latitude
      in if chilling_phase st then
           (let st = st\<lparr>chilling_sum := chilling_sum st + chilling_unit T\<rparr>
            in if chilling_sum st \<ge> chilling_threshold
               then (st\<lparr>chilling_phase := False, forcing_sum := 0\<rparr>, False)
               else (st, False))
         else
           (let st = st\<lparr>forcing_sum := forcing_sum st + forcing_unit T photoperiod T_base alpha\<rparr>
            in if forcing_sum st \<ge> forcing_threshold
               then (st\<lparr>budburst_date := Some current_date\<rparr>, True)
               else (st, False)))"

text \<open>\<open>for idx, row in df.iterrows()\<close>: the rows in order, until the body breaks or the
  rows run out.\<close>

fun for_loop ::
  "real \<Rightarrow> real \<Rightarrow> real \<Rightarrow> real \<Rightarrow> real \<Rightarrow> daily_row list \<Rightarrow> pstate \<Rightarrow> pstate" where
  "for_loop latitude ct ft T_base alpha [] st = st"
| "for_loop latitude ct ft T_base alpha (row # rows) st =
     (case loop_body latitude ct ft T_base alpha st row of
        (st', True) \<Rightarrow> st'
      | (st', False) \<Rightarrow> for_loop latitude ct ft T_base alpha rows st')"

definition initial_state :: pstate where
  "initial_state =
     \<lparr>chilling_sum = 0, forcing_sum = 0, budburst_date = None, chilling_phase = True\<rparr>"

definition predict_budburst ::
  "daily_row list \<Rightarrow> real \<Rightarrow> real \<Rightarrow> real \<Rightarrow> real \<Rightarrow> real \<Rightarrow> date option" where
  "predict_budburst df latitude chilling_threshold forcing_threshold T_base alpha =
     (let df = sort_values df
      in budburst_date
           (for_loop latitude chilling_threshold forcing_threshold T_base alpha df
              initial_state))"

section \<open>The forcing unit\<close>

text \<open>
  C7. \<open>forcing_unit\<close> is \<open>0\<close> for a temperature at or below the base temperature and
  otherwise exactly \<open>(T - T_base) * (1 + alpha * (p - 12))\<close>. Nothing clamps the product:
  with \<open>alpha = 1/10 > 0\<close> and \<open>p = 0 < 12\<close> one degree above the base gives \<open>-1/5\<close>.
\<close>

theorem forcing_unit_cases:
  "forcing_unit T p T_base alpha =
     (if T \<le> T_base then 0 else (T - T_base) * (1 + alpha * (p - 12)))
   \<and> (0::real) < 1 / 10 \<and> (0::real) < 12 \<and> forcing_unit 6 0 5 (1 / 10) = - (1 / 5)
   \<and> forcing_unit 6 0 5 (1 / 10) < 0"
  by (simp add: forcing_unit_def)

end
